theory Spec2Isabelle
  imports Complex_Main "HOL-Library.Word"
begin

section \<open>Data model of viewer.js\<close>

text \<open>
  A JavaScript string is a sequence of UTF-16 code units. \<open>js\<close> embeds an ASCII
  literal.
\<close>

type_synonym js_string = "16 word list"

definition js :: "string \<Rightarrow> js_string" where
  "js cs = map of_char cs"

text \<open>
  \<open>THREE.Vector3\<close>. Coordinates of points picked on the model are finite numbers; they
  are idealised as reals (no rounding).
\<close>

datatype 'a vector3 = Vector3 (vx: 'a) (vy: 'a) (vz: 'a)

type_synonym point = "real vector3"

text \<open>An entry of \<open>state.annotations\<close>: \<open>{ id, title, description, position }\<close>.\<close>

record annotation =
  id' :: int
  title :: js_string
  description :: js_string
  position :: point

text \<open>
  The group built by \<open>createAnnotationMarker\<close>: its position, its
  \<open>userData = { index, isPreview }\<close> and the \<open>visible\<close> flag of the object.
\<close>

record marker =
  m_position :: point
  m_index :: int
  m_isPreview :: bool
  m_visible :: bool

text \<open>
  The parts of the page that are modelled: the info panel (\<open>#info-panel\<close>,
  \<open>#info-title\<close>, \<open>#info-description\<close>), the text of \<open>#measurement-result\<close> and
  the \<open>disabled\<close> flag of \<open>#btn-save-annotation\<close>. Their initial values come from
  index.html, which is not part of the script. What else the functions write to the
  page is presentation and left out: the cursor, the classes and labels of buttons, the
  instruction line, the two inputs of the annotation form (cleared when placement mode
  is entered) and the list, labels and tour progress redrawn from the state.
\<close>

record page =
  infoPanelHidden :: bool
  infoTitle :: js_string
  infoDescription :: js_string
  measurementResult :: js_string
  saveDisabled :: bool

text \<open>
  The \<open>state\<close> object, without the renderer, camera, controls, lights and raycaster
  (the camera is modelled on its own further down). \<open>modelLoaded\<close> stands for
  \<open>state.model\<close> being set. A marker field holds what the script has added to the
  scene: every assignment of \<open>null\<close> or of a new object to such a field is preceded by
  \<open>scene.remove\<close> of the old one.
\<close>

record state = page +
  modelLoaded :: bool
  annotations :: "annotation list"
  tourIndex :: int
  isTourActive :: bool
  isMeasuring :: bool
  measurePoints :: "point list"
  measureMarkers :: "point list"
  measureLine :: "point list option"
  isAddingAnnotation :: bool
  pendingAnnotationPosition :: "point option"
  previewMarker :: "marker option"
  placedMarker :: "point option"
  annotationMarkers :: "marker list"

definition init_state :: "page \<Rightarrow> state" where
  "init_state pg =
     \<lparr> infoPanelHidden = infoPanelHidden pg,
       infoTitle = infoTitle pg,
       infoDescription = infoDescription pg,
       measurementResult = measurementResult pg,
       saveDisabled = saveDisabled pg,
       modelLoaded = False,
       annotations = [],
       tourIndex = - 1,
       isTourActive = False,
       isMeasuring = False,
       measurePoints = [],
       measureMarkers = [],
       measureLine = None,
       isAddingAnnotation = False,
       pendingAnnotationPosition = None,
       previewMarker = None,
       placedMarker = None,
       annotationMarkers = [] \<rparr>"

section \<open>JavaScript built-ins used by the script\<close>

text \<open>
  \<open>String.prototype.trim\<close> strips WhiteSpace and LineTerminator code points from both
  ends: TAB, LF, VT, FF, CR, SP, NBSP, U+1680, U+2000..U+200A, U+2028, U+2029, U+202F,
  U+205F, U+3000 and U+FEFF.
\<close>

definition isWhiteSpace :: "16 word \<Rightarrow> bool" where
  "isWhiteSpace c \<longleftrightarrow>
     c \<in> set [0x09, 0x0A, 0x0B, 0x0C, 0x0D, 0x20, 0xA0, 0x1680,
              0x2000, 0x2001, 0x2002, 0x2003, 0x2004, 0x2005, 0x2006, 0x2007, 0x2008,
              0x2009, 0x200A, 0x2028, 0x2029, 0x202F, 0x205F, 0x3000, 0xFEFF]"

definition trim :: "js_string \<Rightarrow> js_string" where
  "trim s = rev (dropWhile isWhiteSpace (rev (dropWhile isWhiteSpace s)))"

text \<open>
  \<open>xs[index]\<close> for an integer index: \<open>undefined\<close> (here \<open>None\<close>) outside the array.
\<close>

definition at_index :: "'a list \<Rightarrow> int \<Rightarrow> 'a option" where
  "at_index xs i = (if 0 \<le> i \<and> i < int (length xs) then Some (xs ! nat i) else None)"

text \<open>
  \<open>xs.splice(index, 1)\<close> for an integer index: a negative index counts from the end
  and is clamped at 0, an index beyond the end is clamped at the length, and at most
  one element is removed from there.
\<close>

definition splice1 :: "int \<Rightarrow> 'a list \<Rightarrow> 'a list" where
  "splice1 index xs =
     (let len = int (length xs);
          start = (if index < 0 then max (len + index) 0 else min index len);
          n = nat start
      in take n xs @ drop (Suc n) xs)"

section \<open>Annotation system\<close>

text \<open>
  \<open>createAnnotationMarker(position, index, isPreview = false)\<close>: the group is lifted
  by \<open>0.06 * scale\<close> above the surface.
\<close>

definition createAnnotationMarker :: "point \<Rightarrow> int \<Rightarrow> bool \<Rightarrow> marker" where
  "createAnnotationMarker pos index isPreview =
     (let scale = (if isPreview then 1.5 else 1.0)
      in \<lparr> m_position = Vector3 (vx pos) (vy pos + 0.06 * scale) (vz pos),
           m_index = index,
           m_isPreview = isPreview,
           m_visible = True \<rparr>)"

text \<open>\<open>createPlacedMarker(position)\<close>, as the position of the group.\<close>

definition createPlacedMarker :: "point \<Rightarrow> point" where
  "createPlacedMarker pos = Vector3 (vx pos) (vy pos + 0.1) (vz pos)"

definition update3DAnnotationMarkers :: "state \<Rightarrow> state" where
  "update3DAnnotationMarkers s =
     s\<lparr> annotationMarkers :=
          map (\<lambda>(index, a). createAnnotationMarker (position a) (int index) False)
            (enumerate 0 (annotations s)) \<rparr>"

text \<open>The renumbering loop of \<open>deleteAnnotation\<close>: \<open>annotation.id = i + 1\<close>.\<close>

definition renumber :: "annotation list \<Rightarrow> annotation list" where
  "renumber as = map (\<lambda>(i, a). a\<lparr> id' := int i + 1 \<rparr>) (enumerate 0 as)"

text \<open>\<open>deleteAnnotation(index)\<close>, for an integer index.\<close>

definition deleteAnnotation :: "state \<Rightarrow> int \<Rightarrow> state" where
  "deleteAnnotation s index =
     (let s1 = s\<lparr> annotations := renumber (splice1 index (annotations s)) \<rparr>;
          s2 = (if tourIndex s1 \<ge> int (length (annotations s1))
                then s1\<lparr> tourIndex := int (length (annotations s1)) - 1 \<rparr> else s1);
          s3 = (if length (annotations s2) = 0
                then s2\<lparr> tourIndex := - 1, infoPanelHidden := True \<rparr> else s2)
      in update3DAnnotationMarkers s3)"

text \<open>
  \<open>focusAnnotation(index)\<close>. The camera animation it starts (\<open>animateCamera\<close>, below)
  touches the camera and the controls only.
\<close>

definition focusAnnotation :: "state \<Rightarrow> int \<Rightarrow> state" where
  "focusAnnotation s index =
     (case at_index (annotations s) index of
        None \<Rightarrow> s
      | Some a \<Rightarrow>
          s\<lparr> tourIndex := index,
             infoTitle := title a,
             infoDescription := description a,
             infoPanelHidden := False \<rparr>)"

section \<open>Tour system\<close>

definition startTour :: "state \<Rightarrow> state" where
  "startTour s =
     (if length (annotations s) = 0 then s
      else focusAnnotation (s\<lparr> isTourActive := True, tourIndex := 0 \<rparr>) 0)"

definition endTour :: "state \<Rightarrow> state" where
  "endTour s = s\<lparr> isTourActive := False, tourIndex := - 1, infoPanelHidden := True \<rparr>"

definition nextTourStop :: "state \<Rightarrow> state" where
  "nextTourStop s =
     (if tourIndex s < int (length (annotations s)) - 1
      then focusAnnotation s (tourIndex s + 1) else s)"

definition prevTourStop :: "state \<Rightarrow> state" where
  "prevTourStop s = (if tourIndex s > 0 then focusAnnotation s (tourIndex s - 1) else s)"

section \<open>Measurement tool\<close>

text \<open>\<open>Vector3.distanceTo\<close> of three.js: the square root of \<open>dx*dx + dy*dy + dz*dz\<close>.\<close>

definition distanceTo :: "point \<Rightarrow> point \<Rightarrow> real" where
  "distanceTo a b =
     (let dx = vx a - vx b; dy = vy a - vy b; dz = vz a - vz b
      in sqrt (dx * dx + dy * dy + dz * dz))"

text \<open>
  \<open>Number.prototype.toFixed(3)\<close> below \<open>10^21\<close>: the integer \<open>n\<close> with \<open>n / 1000\<close>
  nearest to the magnitude (the larger one on a tie), written in decimal with at least
  one digit before the point and three after it, behind a minus sign for a negative
  number.
\<close>

fun digits :: "nat \<Rightarrow> js_string" where
  "digits n = (if n < 10 then [of_nat (48 + n)] else digits (n div 10) @ [of_nat (48 + n mod 10)])"

declare digits.simps [simp del]

definition toFixed3 :: "real \<Rightarrow> js_string" where
  "toFixed3 x =
     (let sign = (if x < 0 then js ''-'' else []);
          n = nat \<lfloor>\<bar>x\<bar> * 1000 + 1 / 2\<rfloor>;
          m = digits n;
          m = replicate (4 - length m) (of_char CHR ''0'') @ m;
          k = length m
      in sign @ take (k - 3) m @ js ''.'' @ drop (k - 3) m)"

definition clearMeasurement :: "state \<Rightarrow> state" where
  "clearMeasurement s =
     s\<lparr> measurePoints := [], measureMarkers := [], measureLine := None,
        measurementResult := [] \<rparr>"

definition toggleMeasureMode :: "state \<Rightarrow> state" where
  "toggleMeasureMode s = clearMeasurement (s\<lparr> isMeasuring := \<not> isMeasuring s \<rparr>)"

definition addMeasurePoint :: "state \<Rightarrow> point \<Rightarrow> state" where
  "addMeasurePoint s p =
     (let s1 = s\<lparr> measureMarkers := measureMarkers s @ [p],
                  measurePoints := measurePoints s @ [p] \<rparr>
      in case measurePoints s1 of
           [p0, p1] \<Rightarrow>
             s1\<lparr> measurementResult :=
                   js ''Distance: '' @ toFixed3 (distanceTo p0 p1) @ js '' units'',
                 measureLine := Some (measurePoints s1) \<rparr>
         | _ \<Rightarrow> s1)"

section \<open>Add-annotation mode\<close>

definition toggleAddAnnotationMode :: "state \<Rightarrow> state" where
  "toggleAddAnnotationMode s =
     (let s1 = s\<lparr> isAddingAnnotation := \<not> isAddingAnnotation s \<rparr>
      in if isAddingAnnotation s1
         then s1\<lparr> pendingAnnotationPosition := None,
                  saveDisabled := True,
                  previewMarker :=
                    Some ((createAnnotationMarker (Vector3 0 (- 1000) 0) (- 1) True)
                            \<lparr> m_visible := False \<rparr>) \<rparr>
         else s1\<lparr> previewMarker := None, placedMarker := None \<rparr>)"

definition setAnnotationPosition :: "state \<Rightarrow> point \<Rightarrow> state" where
  "setAnnotationPosition s p =
     s\<lparr> pendingAnnotationPosition := Some p,
        saveDisabled := False,
        previewMarker := map_option (\<lambda>m. m\<lparr> m_visible := False \<rparr>) (previewMarker s),
        placedMarker := Some (createPlacedMarker p) \<rparr>"

text \<open>
  \<open>saveAnnotation()\<close>; the two arguments are the values of the inputs
  \<open>#annotation-title\<close> and \<open>#annotation-description\<close> when it runs.
\<close>

definition saveAnnotation :: "state \<Rightarrow> js_string \<Rightarrow> js_string \<Rightarrow> state" where
  "saveAnnotation s titleInput descriptionInput =
     (let title = trim titleInput;
          description = trim descriptionInput
      in case pendingAnnotationPosition s of
           None \<Rightarrow> s
         | Some pos \<Rightarrow>
             if title = [] then s
             else
               let newAnnotation =
                     \<lparr> id' = int (length (annotations s)) + 1,
                       title = title,
                       description =
                         (if description = [] then js ''No description provided.''
                          else description),
                       position = pos \<rparr>;
                   s1 = s\<lparr> annotations := annotations s @ [newAnnotation] \<rparr>;
                   s2 = s1\<lparr> placedMarker := None \<rparr>;
                   s3 = update3DAnnotationMarkers s2
               in toggleAddAnnotationMode s3)"

definition cancelAnnotation :: "state \<Rightarrow> state" where
  "cancelAnnotation s = toggleAddAnnotationMode s"

section \<open>Raycasting and interaction\<close>

text \<open>
  What the raycaster finds for a click: \<open>markerHit\<close> is the place in
  \<open>state.annotationMarkers\<close> of the group that owns the first mesh hit among the
  markers (if any), \<open>modelHit\<close> the first intersection point with the model (if any).
\<close>

record click =
  markerHit :: "nat option"
  modelHit :: "point option"

text \<open>
  The walk from the mesh that was hit up to the group whose \<open>userData.index\<close> is
  defined, and the test \<open>!obj.userData.isPreview\<close>.
\<close>

definition hitAnnotation :: "state \<Rightarrow> click \<Rightarrow> int option" where
  "hitAnnotation s c =
     (case markerHit c of
        None \<Rightarrow> None
      | Some k \<Rightarrow>
          if k < length (annotationMarkers s)
          then (let obj = annotationMarkers s ! k
                in if \<not> m_isPreview obj then Some (m_index obj) else None)
          else None)"

definition onCanvasClick :: "state \<Rightarrow> click \<Rightarrow> state" where
  "onCanvasClick s c =
     (if \<not> modelLoaded s then s
      else
        case (if \<not> isMeasuring s \<and> \<not> isAddingAnnotation s \<and> length (annotationMarkers s) > 0
              then hitAnnotation s c else None) of
          Some index \<Rightarrow> focusAnnotation s index
        | None \<Rightarrow>
            (case modelHit c of
               None \<Rightarrow> s
             | Some p \<Rightarrow>
                 if isMeasuring s \<and> length (measurePoints s) < 2 then addMeasurePoint s p
                 else if isAddingAnnotation s then setAnnotationPosition s p
                 else s))"

definition onCanvasMouseMove :: "state \<Rightarrow> point option \<Rightarrow> state" where
  "onCanvasMouseMove s hit =
     (if \<not> modelLoaded s then s
      else if \<not> isAddingAnnotation s then s
      else
        case previewMarker s of
          None \<Rightarrow> s
        | Some m \<Rightarrow>
            (case hit of
               Some p \<Rightarrow>
                 s\<lparr> previewMarker :=
                      Some (m\<lparr> m_position := Vector3 (vx p) (vy p + 0.09) (vz p),
                               m_visible := True \<rparr>) \<rparr>
             | None \<Rightarrow> s\<lparr> previewMarker := Some (m\<lparr> m_visible := False \<rparr>) \<rparr>))"

section \<open>Event listeners\<close>

datatype key = Escape | ArrowRight | ArrowLeft | OtherKey

definition onKeyDown :: "state \<Rightarrow> key \<Rightarrow> state" where
  "onKeyDown s k =
     (case k of
        Escape \<Rightarrow>
          (let s1 = (if isAddingAnnotation s then cancelAnnotation s else s)
           in if isTourActive s1 then endTour s1 else s1)
      | ArrowRight \<Rightarrow> (if isTourActive s then nextTourStop s else s)
      | ArrowLeft \<Rightarrow> (if isTourActive s then prevTourStop s else s)
      | OtherKey \<Rightarrow> s)"

text \<open>
  The events that reach the modelled state. \<open>MeasureToggled\<close> is a call of
  \<open>toggleMeasureMode\<close>, for which \<open>setupEventListeners\<close> registers no listener.
\<close>

datatype event =
    ModelLoaded
  | CanvasClick click
  | CanvasMouseMove "point option"
  | AddAnnotationToggled
  | MeasureToggled
  | SaveClicked js_string js_string
  | CancelClicked
  | DeleteClicked int
  | CardClicked int
  | TourStartClicked
  | TourPrevClicked
  | TourNextClicked
  | InfoCloseClicked
  | KeyDown key

fun handle :: "state \<Rightarrow> event \<Rightarrow> state" where
  "handle s ModelLoaded = s\<lparr> modelLoaded := True \<rparr>"
| "handle s (CanvasClick c) = onCanvasClick s c"
| "handle s (CanvasMouseMove hit) = onCanvasMouseMove s hit"
| "handle s AddAnnotationToggled = toggleAddAnnotationMode s"
| "handle s MeasureToggled = toggleMeasureMode s"
| "handle s (SaveClicked t d) = saveAnnotation s t d"
| "handle s CancelClicked = cancelAnnotation s"
| "handle s (DeleteClicked index) = deleteAnnotation s index"
| "handle s (CardClicked index) = focusAnnotation s index"
| "handle s TourStartClicked = (if isTourActive s then endTour s else startTour s)"
| "handle s TourPrevClicked = prevTourStop s"
| "handle s TourNextClicked = nextTourStop s"
| "handle s InfoCloseClicked = s\<lparr> infoPanelHidden := True \<rparr>"
| "handle s (KeyDown k) = onKeyDown s k"

definition run :: "state \<Rightarrow> event list \<Rightarrow> state" where
  "run s es = foldl handle s es"

section \<open>Camera animation\<close>

text \<open>
  A JavaScript number: a finite value, an infinity or NaN. Finite arithmetic is
  idealised as exact arithmetic on reals, the two zeros are identified, and a zero
  divisor counts as \<open>+0\<close>. The operations follow IEEE 754 on the special values.
\<close>

datatype number = Finite real | PosInfinity | NegInfinity | NaN

fun js_neg :: "number \<Rightarrow> number" where
  "js_neg (Finite a) = Finite (- a)"
| "js_neg PosInfinity = NegInfinity"
| "js_neg NegInfinity = PosInfinity"
| "js_neg NaN = NaN"

fun js_add :: "number \<Rightarrow> number \<Rightarrow> number" where
  "js_add NaN _ = NaN"
| "js_add _ NaN = NaN"
| "js_add (Finite a) (Finite b) = Finite (a + b)"
| "js_add PosInfinity NegInfinity = NaN"
| "js_add NegInfinity PosInfinity = NaN"
| "js_add PosInfinity _ = PosInfinity"
| "js_add _ PosInfinity = PosInfinity"
| "js_add NegInfinity _ = NegInfinity"
| "js_add _ NegInfinity = NegInfinity"

definition js_sub :: "number \<Rightarrow> number \<Rightarrow> number" where
  "js_sub a b = js_add a (js_neg b)"

text \<open>The sign of a number that is not NaN, and the infinity of a given sign.\<close>

fun is_negative :: "number \<Rightarrow> bool" where
  "is_negative (Finite a) = (a < 0)"
| "is_negative NegInfinity = True"
| "is_negative _ = False"

definition infinity :: "bool \<Rightarrow> number" where
  "infinity negative = (if negative then NegInfinity else PosInfinity)"

fun js_mul :: "number \<Rightarrow> number \<Rightarrow> number" where
  "js_mul NaN _ = NaN"
| "js_mul _ NaN = NaN"
| "js_mul (Finite a) (Finite b) = Finite (a * b)"
| "js_mul (Finite a) b = (if a = 0 then NaN else infinity (is_negative (Finite a) \<noteq> is_negative b))"
| "js_mul a (Finite b) = (if b = 0 then NaN else infinity (is_negative a \<noteq> is_negative (Finite b)))"
| "js_mul a b = infinity (is_negative a \<noteq> is_negative b)"

fun js_div :: "number \<Rightarrow> number \<Rightarrow> number" where
  "js_div NaN _ = NaN"
| "js_div _ NaN = NaN"
| "js_div (Finite a) (Finite b) =
     (if b \<noteq> 0 then Finite (a / b)
      else if a = 0 then NaN
      else infinity (a < 0))"
| "js_div (Finite a) _ = Finite 0"
| "js_div a (Finite b) = infinity (is_negative a \<noteq> (b < 0))"
| "js_div _ _ = NaN"

text \<open>The comparison \<open>a < b\<close>: false as soon as one side is NaN.\<close>

fun js_lt :: "number \<Rightarrow> number \<Rightarrow> bool" where
  "js_lt NaN _ = False"
| "js_lt _ NaN = False"
| "js_lt (Finite a) (Finite b) = (a < b)"
| "js_lt NegInfinity b = (b \<noteq> NegInfinity)"
| "js_lt a PosInfinity = (a \<noteq> PosInfinity)"
| "js_lt _ _ = False"

text \<open>\<open>Math.min(a, b)\<close> and \<open>Math.pow(a, n)\<close> for a natural exponent.\<close>

definition Math_min :: "number \<Rightarrow> number \<Rightarrow> number" where
  "Math_min a b = (if a = NaN \<or> b = NaN then NaN else if js_lt b a then b else a)"

fun Math_pow :: "number \<Rightarrow> nat \<Rightarrow> number" where
  "Math_pow a 0 = Finite 1"
| "Math_pow (Finite a) n = Finite (a ^ n)"
| "Math_pow PosInfinity n = PosInfinity"
| "Math_pow NegInfinity n = (if odd n then NegInfinity else PosInfinity)"
| "Math_pow NaN n = NaN"

text \<open>
  \<open>Vector3.lerpVectors(v1, v2, alpha)\<close> of three.js: \<open>v1 + (v2 - v1) * alpha\<close> in each
  coordinate.
\<close>

definition lerpVectors :: "number vector3 \<Rightarrow> number vector3 \<Rightarrow> number \<Rightarrow> number vector3" where
  "lerpVectors v1 v2 alpha =
     Vector3 (js_add (vx v1) (js_mul (js_sub (vx v2) (vx v1)) alpha))
             (js_add (vy v1) (js_mul (js_sub (vy v2) (vy v1)) alpha))
             (js_add (vz v1) (js_mul (js_sub (vz v2) (vz v1)) alpha))"

definition easeOutCubic :: "number \<Rightarrow> number" where
  "easeOutCubic t = js_sub (Finite 1) (Math_pow (js_sub (Finite 1) t) 3)"

text \<open>\<open>state.camera.position\<close> and \<open>state.controls.target\<close>.\<close>

record camera =
  camera_position :: "number vector3"
  controls_target :: "number vector3"

text \<open>
  The variables the inner function \<open>update\<close> of \<open>animateCamera\<close> closes over. A
  reading of \<open>performance.now()\<close> is a finite number of milliseconds.
\<close>

record animation =
  startPosition :: "number vector3"
  newPosition :: "number vector3"
  startTarget :: "number vector3"
  newTarget :: "number vector3"
  startTime :: real
  duration :: number

text \<open>
  One run of \<open>update()\<close>, with \<open>now\<close> the value \<open>performance.now()\<close> returns in it:
  the camera after the two \<open>lerpVectors\<close> calls, and whether
  \<open>requestAnimationFrame(update)\<close> is called. \<open>state.controls.update()\<close> belongs
  to OrbitControls and is not modelled.
\<close>

definition progress :: "animation \<Rightarrow> real \<Rightarrow> number" where
  "progress a now =
     (let elapsed = Finite (now - startTime a)
      in Math_min (js_div elapsed (duration a)) (Finite 1))"

definition update :: "animation \<Rightarrow> real \<Rightarrow> camera \<Rightarrow> camera \<times> bool" where
  "update a now cam =
     (let eased = easeOutCubic (progress a now)
      in (cam\<lparr> camera_position := lerpVectors (startPosition a) (newPosition a) eased,
               controls_target := lerpVectors (startTarget a) (newTarget a) eased \<rparr>,
          js_lt (progress a now) (Finite 1)))"

text \<open>
  \<open>animateCamera(newPosition, newTarget, duration)\<close>: \<open>t0\<close> is the reading of
  \<open>performance.now()\<close> stored in \<open>startTime\<close>, \<open>now\<close> the reading in the first run
  of \<open>update()\<close>, which the function makes itself. \<open>frames\<close> are the later runs, one
  per display refresh, as long as each asks for the next.
\<close>

definition closure ::
  "camera \<Rightarrow> number vector3 \<Rightarrow> number vector3 \<Rightarrow> number \<Rightarrow> real \<Rightarrow> animation" where
  "closure cam pos tgt dur t0 =
     \<lparr> startPosition = camera_position cam, newPosition = pos,
       startTarget = controls_target cam, newTarget = tgt,
       startTime = t0, duration = dur \<rparr>"

definition animateCamera ::
  "camera \<Rightarrow> number vector3 \<Rightarrow> number vector3 \<Rightarrow> number \<Rightarrow> real \<Rightarrow> real \<Rightarrow> camera \<times> bool" where
  "animateCamera cam pos tgt dur t0 now = update (closure cam pos tgt dur t0) now cam"


text \<open>A vector of finite coordinates.\<close>

definition finite_vector :: "point \<Rightarrow> number vector3" where
  "finite_vector p = Vector3 (Finite (vx p)) (Finite (vy p)) (Finite (vz p))"

text \<open>
  The animation \<open>focusAnnotation\<close> starts for an annotation: towards the annotation's
  position plus the offset \<open>(0.5, 0.3, 1.5)\<close>, looking at the position, with the default
  duration of 1000 ms.
\<close>

definition focusCamera :: "camera \<Rightarrow> annotation \<Rightarrow> real \<Rightarrow> real \<Rightarrow> camera \<times> bool" where
  "focusCamera cam a t0 now =
     (let targetPosition = position a;
          newCameraPos = Vector3 (vx targetPosition + 0.5) (vy targetPosition + 0.3)
                                 (vz targetPosition + 1.5)
      in animateCamera cam (finite_vector newCameraPos) (finite_vector targetPosition)
           (Finite 1000) t0 now)"

section \<open>Invariants and example inputs\<close>

text \<open>Every ordinal is its index plus one.\<close>

definition ordinals_ok :: "annotation list \<Rightarrow> bool" where
  "ordinals_ok as \<longleftrightarrow> (\<forall>i < length as. id' (as ! i) = int i + 1)"

text \<open>The markers \<open>update3DAnnotationMarkers\<close> builds for a list of annotations.\<close>

definition markers_of :: "annotation list \<Rightarrow> marker list" where
  "markers_of as =
     map (\<lambda>(index, a). createAnnotationMarker (position a) (int index) False)
       (enumerate 0 as)"

definition state_ok :: "state \<Rightarrow> bool" where
  "state_ok s \<longleftrightarrow>
     ordinals_ok (annotations s) \<and>
     - 1 \<le> tourIndex s \<and> tourIndex s < int (length (annotations s)) \<and>
     length (measurePoints s) \<le> 2 \<and>
     annotationMarkers s = markers_of (annotations s)"

definition page0 :: page where
  "page0 = \<lparr> infoPanelHidden = True, infoTitle = [], infoDescription = [],
              measurementResult = [], saveDisabled = True \<rparr>"

text \<open>A click that misses every marker and hits the model at \<open>p\<close>.\<close>

definition pick :: "point \<Rightarrow> event" where
  "pick p = CanvasClick \<lparr> markerHit = None, modelHit = Some p \<rparr>"

text \<open>
  Two annotations are placed and saved: ``Horse'' at the origin without a description,
  and `` Rider '' at \<open>(3, 4, 0)\<close> with the description ``cloak''.
\<close>

definition demo_events :: "event list" where
  "demo_events =
     [ModelLoaded,
      AddAnnotationToggled, pick (Vector3 0 0 0), SaveClicked (js ''Horse'') [],
      AddAnnotationToggled, pick (Vector3 3 4 0),
      SaveClicked (js '' Rider '') (js ''cloak'')]"


section \<open>Invariants of the event handlers\<close>

lemma length_renumber [simp]: "length (renumber as) = length as"
  by (simp add: renumber_def)

lemma renumber_Nil [simp]: "renumber [] = []"
  by (simp add: renumber_def)

lemma renumber_eq_Nil [simp]: "renumber as = [] \<longleftrightarrow> as = []"
  by (simp add: renumber_def enumerate_eq_zip)

lemma nth_renumber: "i < length as \<Longrightarrow> renumber as ! i = (as ! i)\<lparr> id' := int i + 1 \<rparr>"
  by (simp add: renumber_def nth_enumerate_eq)

lemma ordinals_ok_renumber: "ordinals_ok (renumber as)"
  by (simp add: ordinals_ok_def nth_renumber)

lemma ordinals_ok_snoc:
  "ordinals_ok as \<Longrightarrow> id' a = int (length as) + 1 \<Longrightarrow> ordinals_ok (as @ [a])"
  by (auto simp: ordinals_ok_def nth_append less_Suc_eq)

lemma renumber_id: "ordinals_ok as \<Longrightarrow> renumber as = as"
  by (rule nth_equalityI) (simp_all add: nth_renumber ordinals_ok_def)

lemma length_splice1: "length (splice1 i xs) \<le> length xs"
  by (simp add: splice1_def Let_def)

lemma splice1_beyond: "int (length xs) \<le> i \<Longrightarrow> splice1 i xs = xs"
  by (simp add: splice1_def Let_def)

lemma state_ok_init: "state_ok (init_state pg)"
  by (simp add: state_ok_def init_state_def ordinals_ok_def markers_of_def)

lemma state_ok_focus: "state_ok s \<Longrightarrow> state_ok (focusAnnotation s i)"
  by (auto simp: state_ok_def focusAnnotation_def at_index_def split: option.splits if_splits)

lemma ordinals_ok_Nil [simp]: "ordinals_ok []"
  by (simp add: ordinals_ok_def)

lemma annotations_delete:
  "annotations (deleteAnnotation s i) = renumber (splice1 i (annotations s))"
  by (simp add: deleteAnnotation_def Let_def update3DAnnotationMarkers_def)

lemma tourIndex_delete:
  "tourIndex (deleteAnnotation s i) =
     (let n = int (length (splice1 i (annotations s)))
      in if n = 0 then - 1 else if n \<le> tourIndex s then n - 1 else tourIndex s)"
  by (simp add: deleteAnnotation_def Let_def update3DAnnotationMarkers_def)

lemma state_ok_delete: "state_ok s \<Longrightarrow> state_ok (deleteAnnotation s i)"
  unfolding state_ok_def annotations_delete tourIndex_delete
  by (auto simp: Let_def ordinals_ok_renumber deleteAnnotation_def
      update3DAnnotationMarkers_def markers_of_def)

lemma state_ok_toggleAdd: "state_ok s \<Longrightarrow> state_ok (toggleAddAnnotationMode s)"
  by (simp add: state_ok_def toggleAddAnnotationMode_def Let_def)

lemma state_ok_save: "state_ok s \<Longrightarrow> state_ok (saveAnnotation s t d)"
  by (auto simp: state_ok_def saveAnnotation_def toggleAddAnnotationMode_def Let_def
      update3DAnnotationMarkers_def markers_of_def ordinals_ok_snoc split: option.splits)

lemma state_ok_toggleMeasure: "state_ok s \<Longrightarrow> state_ok (toggleMeasureMode s)"
  by (simp add: state_ok_def toggleMeasureMode_def clearMeasurement_def)

lemma addMeasurePoint_frame:
  "measurePoints (addMeasurePoint s p) = measurePoints s @ [p]"
  "measureMarkers (addMeasurePoint s p) = measureMarkers s @ [p]"
  "annotations (addMeasurePoint s p) = annotations s"
  "tourIndex (addMeasurePoint s p) = tourIndex s"
  "annotationMarkers (addMeasurePoint s p) = annotationMarkers s"
  "pendingAnnotationPosition (addMeasurePoint s p) = pendingAnnotationPosition s"
  "isMeasuring (addMeasurePoint s p) = isMeasuring s"
  "isAddingAnnotation (addMeasurePoint s p) = isAddingAnnotation s"
  by (simp_all add: addMeasurePoint_def Let_def split: list.splits)

lemma state_ok_addMeasurePoint:
  "state_ok s \<Longrightarrow> length (measurePoints s) < 2 \<Longrightarrow> state_ok (addMeasurePoint s p)"
  by (simp add: state_ok_def addMeasurePoint_frame)

lemma state_ok_setPos: "state_ok s \<Longrightarrow> state_ok (setAnnotationPosition s p)"
  by (simp add: state_ok_def setAnnotationPosition_def)

lemma state_ok_click: "state_ok s \<Longrightarrow> state_ok (onCanvasClick s c)"
  by (auto simp: onCanvasClick_def state_ok_focus state_ok_addMeasurePoint state_ok_setPos
      split: option.splits)

lemma state_ok_move: "state_ok s \<Longrightarrow> state_ok (onCanvasMouseMove s h)"
  by (auto simp: onCanvasMouseMove_def state_ok_def split: option.splits)

lemma state_ok_endTour: "state_ok s \<Longrightarrow> state_ok (endTour s)"
  by (simp add: state_ok_def endTour_def)

lemma state_ok_startTour: "state_ok s \<Longrightarrow> state_ok (startTour s)"
  by (auto simp: startTour_def state_ok_def focusAnnotation_def at_index_def split: option.splits)

lemma state_ok_next: "state_ok s \<Longrightarrow> state_ok (nextTourStop s)"
  by (simp add: nextTourStop_def state_ok_focus)

lemma state_ok_prev: "state_ok s \<Longrightarrow> state_ok (prevTourStop s)"
  by (simp add: prevTourStop_def state_ok_focus)

lemma state_ok_key: "state_ok s \<Longrightarrow> state_ok (onKeyDown s k)"
  by (cases k) (simp_all add: onKeyDown_def Let_def cancelAnnotation_def state_ok_toggleAdd
      state_ok_endTour state_ok_next state_ok_prev)

lemma state_ok_handle: "state_ok s \<Longrightarrow> state_ok (handle s e)"
proof (cases e)
  case ModelLoaded
  assume "state_ok s"
  then show ?thesis using ModelLoaded by (simp add: state_ok_def)
next
  case InfoCloseClicked
  assume "state_ok s"
  then show ?thesis using InfoCloseClicked by (simp add: state_ok_def)
qed (simp_all add: state_ok_click state_ok_move state_ok_toggleAdd state_ok_toggleMeasure
      state_ok_save cancelAnnotation_def state_ok_delete state_ok_focus state_ok_endTour
      state_ok_startTour state_ok_prev state_ok_next state_ok_key)

lemma state_ok_run: "state_ok s \<Longrightarrow> state_ok (run s es)"
  unfolding run_def by (induction es arbitrary: s) (simp_all add: state_ok_handle)

section \<open>Annotation store\<close>

lemma state_ok_reachable: "state_ok (run (init_state pg) es)"
  by (rule state_ok_run) (rule state_ok_init)

lemma ordinals_ok_map:
  "ordinals_ok as \<Longrightarrow> map id' as = map (\<lambda>i. int i + 1) [0..<length as]"
  by (rule nth_equalityI) (simp_all add: ordinals_ok_def)

lemma ordinals_ok_distinct: "ordinals_ok as \<Longrightarrow> distinct (map id' as)"
  by (simp add: ordinals_ok_map distinct_map inj_on_def)

text \<open>
  Claim C1. Whatever events the page has handled since it was loaded (saving and
  deleting annotations among them, a deletion with any integer index), every
  annotation's \<open>id\<close> is its index plus one, so the ordinals have no gaps and no
  duplicates.
\<close>

theorem ordinals_after_every_operation:
  "(\<forall>i < length (annotations (run (init_state pg) es)).
       id' (annotations (run (init_state pg) es) ! i) = int i + 1) \<and>
   distinct (map id' (annotations (run (init_state pg) es)))"
proof -
  have "ordinals_ok (annotations (run (init_state pg) es))"
    using state_ok_reachable [of pg es] by (simp add: state_ok_def)
  then show ?thesis
    by (simp add: ordinals_ok_distinct) (simp add: ordinals_ok_def)
qed

lemmas eval_defs = run_def init_state_def page0_def pick_def demo_events_def onCanvasClick_def
  toggleAddAnnotationMode_def saveAnnotation_def setAnnotationPosition_def
  update3DAnnotationMarkers_def deleteAnnotation_def focusAnnotation_def at_index_def
  splice1_def renumber_def trim_def isWhiteSpace_def js_def createAnnotationMarker_def
  createPlacedMarker_def enumerate_eq_zip Let_def hitAnnotation_def

lemma demo_annotations:
  "annotations (run (init_state page0) demo_events) =
     [\<lparr> id' = 1, title = js ''Horse'', description = js ''No description provided.'',
        position = Vector3 0 0 0 \<rparr>,
      \<lparr> id' = 2, title = js ''Rider'', description = js ''cloak'',
        position = Vector3 3 4 0 \<rparr>]"
  by (simp add: eval_defs)

theorem ordinals_after_every_operation_witness:
  "length (annotations (run (init_state page0) (demo_events @ [DeleteClicked 0]))) = 1 \<and>
   id' (annotations (run (init_state page0) (demo_events @ [DeleteClicked 0])) ! 0) = 1"
  using ordinals_after_every_operation [of page0 "demo_events @ [DeleteClicked 0]"]
  by (simp add: eval_defs)

lemma infoPanelHidden_delete:
  "annotations (deleteAnnotation s i) = [] \<Longrightarrow> infoPanelHidden (deleteAnnotation s i)"
  by (simp add: deleteAnnotation_def Let_def update3DAnnotationMarkers_def split: if_splits)

text \<open>
  Claim C4. After a deletion (at any integer index) in a state the page can reach, the
  tour cursor lies between \<open>-1\<close> and \<open>N - 1\<close> for the new length \<open>N\<close>; when the list
  has become empty the cursor is \<open>-1\<close> and the info panel is hidden.
\<close>

theorem cursor_after_deletion:
  "(let s' = deleteAnnotation (run (init_state pg) es) index;
        n = int (length (annotations s'))
    in - 1 \<le> tourIndex s' \<and> tourIndex s' \<le> n - 1 \<and>
       (n = 0 \<longrightarrow> tourIndex s' = - 1 \<and> infoPanelHidden s'))"
proof -
  have ok: "state_ok (deleteAnnotation (run (init_state pg) es) index)"
    by (rule state_ok_delete) (rule state_ok_reachable)
  then show ?thesis
    by (auto simp: Let_def state_ok_def infoPanelHidden_delete)
qed

lemma demo_focus_second:
  "tourIndex (run (init_state page0) (demo_events @ [CardClicked 1])) = 1 \<and>
   \<not> infoPanelHidden (run (init_state page0) (demo_events @ [CardClicked 1]))"
  by (simp add: eval_defs)

theorem cursor_after_deletion_witness:
  "tourIndex (deleteAnnotation (run (init_state page0) (demo_events @ [CardClicked 1])) 1) = 0 \<and>
   length (annotations
     (deleteAnnotation (run (init_state page0) (demo_events @ [CardClicked 1, DeleteClicked 1])) 0)) = 0 \<and>
   tourIndex
     (deleteAnnotation (run (init_state page0) (demo_events @ [CardClicked 1, DeleteClicked 1])) 0) = - 1 \<and>
   infoPanelHidden
     (deleteAnnotation (run (init_state page0) (demo_events @ [CardClicked 1, DeleteClicked 1])) 0)"
proof -
  have len: "length (annotations
     (deleteAnnotation (run (init_state page0) (demo_events @ [CardClicked 1, DeleteClicked 1])) 0)) = 0"
    by (simp add: eval_defs)
  have first: "tourIndex (deleteAnnotation (run (init_state page0) (demo_events @ [CardClicked 1])) 1) = 0"
    by (simp add: eval_defs)
  show ?thesis
    using cursor_after_deletion [of page0 "demo_events @ [CardClicked 1, DeleteClicked 1]" 0] len first
    by (simp add: Let_def)
qed


lemma trim_eq_Nil: "trim t = [] \<longleftrightarrow> (\<forall>c \<in> set t. isWhiteSpace c)"
proof
  assume "trim t = []"
  then have all: "\<forall>c \<in> set (dropWhile isWhiteSpace t). isWhiteSpace c"
    by (simp add: trim_def dropWhile_eq_Nil_conv)
  have "dropWhile isWhiteSpace t = []"
  proof (rule ccontr)
    assume ne: "dropWhile isWhiteSpace t \<noteq> []"
    then have "\<not> isWhiteSpace (hd (dropWhile isWhiteSpace t))"
      by (rule hd_dropWhile)
    moreover have "hd (dropWhile isWhiteSpace t) \<in> set (dropWhile isWhiteSpace t)"
      using ne by simp
    ultimately show False using all by blast
  qed
  then show "\<forall>c \<in> set t. isWhiteSpace c"
    by (simp add: dropWhile_eq_Nil_conv)
next
  assume "\<forall>c \<in> set t. isWhiteSpace c"
  then have d: "dropWhile isWhiteSpace t = []"
    by (simp add: dropWhile_eq_Nil_conv)
  show "trim t = []"
    unfolding trim_def d by simp
qed

lemma trim_Nil [simp]: "trim [] = []"
  by (simp add: trim_def)

lemma trim_decompose:
  "\<exists>before after. t = before @ trim t @ after \<and>
     (\<forall>c \<in> set before. isWhiteSpace c) \<and> (\<forall>c \<in> set after. isWhiteSpace c)"
proof -
  let ?r = "dropWhile isWhiteSpace t"
  have "rev (takeWhile isWhiteSpace (rev ?r) @ dropWhile isWhiteSpace (rev ?r)) = ?r"
    by simp
  then have "rev (dropWhile isWhiteSpace (rev ?r)) @ rev (takeWhile isWhiteSpace (rev ?r)) = ?r"
    by (simp only: rev_append)
  then have r: "?r = trim t @ rev (takeWhile isWhiteSpace (rev ?r))"
    by (simp only: trim_def)
  have "t = takeWhile isWhiteSpace t @ ?r" by simp
  with r have "t = takeWhile isWhiteSpace t @ trim t @ rev (takeWhile isWhiteSpace (rev ?r))"
    by simp
  moreover have "\<forall>c \<in> set (takeWhile isWhiteSpace t). isWhiteSpace c"
    by (auto dest: set_takeWhileD)
  moreover have "\<forall>c \<in> set (rev (takeWhile isWhiteSpace (rev ?r))). isWhiteSpace c"
    by (auto dest: set_takeWhileD)
  ultimately show ?thesis by blast
qed

lemma trim_ends:
  assumes ne: "trim t \<noteq> []"
  shows "\<not> isWhiteSpace (hd (trim t)) \<and> \<not> isWhiteSpace (last (trim t))"
proof -
  let ?r = "dropWhile isWhiteSpace t"
  let ?q = "dropWhile isWhiteSpace (rev ?r)"
  have q: "?q \<noteq> []" using ne by (simp add: trim_def)
  then have l: "\<not> isWhiteSpace (hd ?q)" by (rule hd_dropWhile)
  have "last (trim t) = hd ?q" using q by (simp add: trim_def last_rev)
  with l have a: "\<not> isWhiteSpace (last (trim t))" by simp
  have r: "?r \<noteq> []"
  proof
    assume e: "?r = []"
    have "?q = []" unfolding e by simp
    with q show False by simp
  qed
  then have h: "\<not> isWhiteSpace (hd ?r)" by (rule hd_dropWhile)
  have m: "hd ?q \<in> set (rev ?r)"
    using q by (meson hd_in_set set_dropWhileD)
  have "last ?q = last (rev ?r)" using m l by (rule dropWhile_last)
  moreover have "hd (trim t) = last ?q" using q by (simp add: trim_def hd_rev)
  moreover have "last (rev ?r) = hd ?r" using r by (simp add: last_rev)
  ultimately have "hd (trim t) = hd ?r" by simp
  with h a show ?thesis by simp
qed

lemma saveAnnotation_rejected:
  "trim t = [] \<or> pendingAnnotationPosition s = None \<Longrightarrow> saveAnnotation s t d = s"
  by (auto simp: saveAnnotation_def Let_def split: option.splits)

lemma saveAnnotation_annotations:
  "trim t \<noteq> [] \<Longrightarrow> pendingAnnotationPosition s = Some pos \<Longrightarrow>
   annotations (saveAnnotation s t d) =
     annotations s @
       [\<lparr> id' = int (length (annotations s)) + 1, title = trim t,
          description = (if trim d = [] then js ''No description provided.'' else trim d),
          position = pos \<rparr>]"
  by (simp add: saveAnnotation_def Let_def toggleAddAnnotationMode_def
      update3DAnnotationMarkers_def)

text \<open>
  Claim C6. \<open>saveAnnotation\<close> leaves the whole state, and so the annotation list,
  unchanged when the title is empty (also after trimming) or no position is staged. In
  every other case the old list is kept and one entry is appended, whose ordinal is the
  previous length plus one and whose position is the staged one.
\<close>

theorem save_rejects_or_appends:
  "(t = [] \<or> trim t = [] \<or> pendingAnnotationPosition s = None \<longrightarrow>
      saveAnnotation s t d = s) \<and>
   (trim t \<noteq> [] \<and> pendingAnnotationPosition s = Some pos \<longrightarrow>
      length (annotations (saveAnnotation s t d)) = length (annotations s) + 1 \<and>
      butlast (annotations (saveAnnotation s t d)) = annotations s \<and>
      id' (last (annotations (saveAnnotation s t d))) = int (length (annotations s)) + 1 \<and>
      position (last (annotations (saveAnnotation s t d))) = pos)"
proof (intro conjI impI)
  assume "t = [] \<or> trim t = [] \<or> pendingAnnotationPosition s = None"
  then show "saveAnnotation s t d = s"
    by (auto intro: saveAnnotation_rejected)
next
  assume "trim t \<noteq> [] \<and> pendingAnnotationPosition s = Some pos"
  then have t: "trim t \<noteq> []" and pos: "pendingAnnotationPosition s = Some pos"
    by simp_all
  note app = saveAnnotation_annotations [OF t pos, of d]
  show "length (annotations (saveAnnotation s t d)) = length (annotations s) + 1"
    by (simp add: app)
  show "butlast (annotations (saveAnnotation s t d)) = annotations s"
    by (simp add: app)
  show "id' (last (annotations (saveAnnotation s t d))) = int (length (annotations s)) + 1"
    by (simp add: app)
  show "position (last (annotations (saveAnnotation s t d))) = pos"
    by (simp add: app)
qed

lemma placing_state:
  "run (init_state page0) [ModelLoaded, AddAnnotationToggled, pick (Vector3 0 0 0)] =
     \<lparr> infoPanelHidden = True, infoTitle = [], infoDescription = [], measurementResult = [],
       saveDisabled = False, modelLoaded = True, annotations = [], tourIndex = - 1,
       isTourActive = False, isMeasuring = False, measurePoints = [], measureMarkers = [],
       measureLine = None, isAddingAnnotation = True,
       pendingAnnotationPosition = Some (Vector3 0 0 0),
       previewMarker = Some \<lparr> m_position = Vector3 0 (- 1000 + 0.06 * 1.5) 0, m_index = - 1,
                               m_isPreview = True, m_visible = False \<rparr>,
       placedMarker = Some (Vector3 0 0.1 0), annotationMarkers = [] \<rparr>"
  by (simp add: eval_defs)

lemma trim_Horse: "trim (js ''Horse'') = js ''Horse''"
  by (simp add: trim_def js_def isWhiteSpace_def)

lemma trim_Rider: "trim (js '' Rider '') = js ''Rider''"
  by (simp add: trim_def js_def isWhiteSpace_def)

theorem save_rejects_or_appends_witness:
  "saveAnnotation (run (init_state page0) [ModelLoaded, AddAnnotationToggled, pick (Vector3 0 0 0)])
       [] (js ''text'') =
     run (init_state page0) [ModelLoaded, AddAnnotationToggled, pick (Vector3 0 0 0)] \<and>
   saveAnnotation (init_state page0) (js ''Horse'') [] = init_state page0 \<and>
   map id' (annotations
     (saveAnnotation (run (init_state page0) [ModelLoaded, AddAnnotationToggled, pick (Vector3 0 0 0)])
        (js ''Horse'') [])) = [1] \<and>
   map position (annotations
     (saveAnnotation (run (init_state page0) [ModelLoaded, AddAnnotationToggled, pick (Vector3 0 0 0)])
        (js ''Horse'') [])) = [Vector3 0 0 0]"
proof -
  let ?s = "run (init_state page0) [ModelLoaded, AddAnnotationToggled, pick (Vector3 0 0 0)]"
  let ?as = "annotations (saveAnnotation ?s (js ''Horse'') [])"
  have none: "pendingAnnotationPosition (init_state page0) = None"
    by (simp add: init_state_def)
  have staged: "pendingAnnotationPosition ?s = Some (Vector3 0 0 0)" and empty: "annotations ?s = []"
    unfolding placing_state by simp_all
  have ne: "trim (js ''Horse'') \<noteq> []"
    unfolding trim_Horse by (simp add: js_def)
  have "length ?as = length (annotations ?s) + 1 \<and> id' (last ?as) = int (length (annotations ?s)) + 1 \<and>
      position (last ?as) = Vector3 0 0 0"
    using save_rejects_or_appends [where t = "js ''Horse''" and s = ?s and d = "[]"
        and pos = "Vector3 0 0 0"] staged ne
    by blast
  then have "map id' ?as = [1] \<and> map position ?as = [Vector3 0 0 0]"
    using empty by (cases ?as) auto
  then show ?thesis
    using save_rejects_or_appends [where t = "[]" and s = ?s and d = "js ''text''"]
      save_rejects_or_appends [where t = "js ''Horse''" and s = "init_state page0" and d = "[]"] none
    by simp
qed

text \<open>
  Claim C10. A title made of white space only is rejected like an empty one. A saved
  annotation stores the trimmed title, and the trimmed description, or the placeholder
  when the description trims to nothing. Trimming removes white space at both ends and
  nothing else: what it returns, when not empty, neither starts nor ends with white
  space.
\<close>

theorem whitespace_title_and_trimmed_fields:
  "((\<forall>c \<in> set t. isWhiteSpace c) \<longrightarrow> saveAnnotation s t d = s) \<and>
   (\<not> (\<forall>c \<in> set t. isWhiteSpace c) \<and> pendingAnnotationPosition s = Some pos \<longrightarrow>
      title (last (annotations (saveAnnotation s t d))) = trim t \<and>
      description (last (annotations (saveAnnotation s t d))) =
        (if \<forall>c \<in> set d. isWhiteSpace c then js ''No description provided.'' else trim d)) \<and>
   (\<exists>before after. t = before @ trim t @ after \<and>
      (\<forall>c \<in> set before. isWhiteSpace c) \<and> (\<forall>c \<in> set after. isWhiteSpace c)) \<and>
   (trim t \<noteq> [] \<longrightarrow> \<not> isWhiteSpace (hd (trim t)) \<and> \<not> isWhiteSpace (last (trim t)))"
proof (intro conjI impI)
  assume "\<forall>c \<in> set t. isWhiteSpace c"
  then have "trim t = []" by (simp add: trim_eq_Nil)
  then show "saveAnnotation s t d = s" by (simp add: saveAnnotation_rejected)
next
  assume "\<not> (\<forall>c \<in> set t. isWhiteSpace c) \<and> pendingAnnotationPosition s = Some pos"
  then have t: "trim t \<noteq> []" and pos: "pendingAnnotationPosition s = Some pos"
    by (simp_all add: trim_eq_Nil)
  note app = saveAnnotation_annotations [OF t pos, of d]
  show "title (last (annotations (saveAnnotation s t d))) = trim t"
    by (simp add: app)
  show "description (last (annotations (saveAnnotation s t d))) =
        (if \<forall>c \<in> set d. isWhiteSpace c then js ''No description provided.'' else trim d)"
    by (simp add: app trim_eq_Nil)
next
  show "\<exists>before after. t = before @ trim t @ after \<and>
      (\<forall>c \<in> set before. isWhiteSpace c) \<and> (\<forall>c \<in> set after. isWhiteSpace c)"
    by (rule trim_decompose)
next
  assume "trim t \<noteq> []"
  then show "\<not> isWhiteSpace (hd (trim t))" by (simp add: trim_ends)
next
  assume "trim t \<noteq> []"
  then show "\<not> isWhiteSpace (last (trim t))" by (simp add: trim_ends)
qed

lemma white_title: "\<forall>c \<in> set (js [CHR 0x20, CHR 0x09, CHR 0x0A]). isWhiteSpace c"
  by (simp add: js_def isWhiteSpace_def)

theorem whitespace_title_and_trimmed_fields_witness:
  "saveAnnotation (run (init_state page0) [ModelLoaded, AddAnnotationToggled, pick (Vector3 0 0 0)])
       (js [CHR 0x20, CHR 0x09, CHR 0x0A]) (js ''text'') =
     run (init_state page0) [ModelLoaded, AddAnnotationToggled, pick (Vector3 0 0 0)] \<and>
   title (last (annotations
     (saveAnnotation (run (init_state page0) [ModelLoaded, AddAnnotationToggled, pick (Vector3 0 0 0)])
        (js '' Rider '') (js '' '')))) = js ''Rider'' \<and>
   description (last (annotations
     (saveAnnotation (run (init_state page0) [ModelLoaded, AddAnnotationToggled, pick (Vector3 0 0 0)])
        (js '' Rider '') (js '' '')))) = js ''No description provided.''"
proof -
  let ?s = "run (init_state page0) [ModelLoaded, AddAnnotationToggled, pick (Vector3 0 0 0)]"
  have staged: "pendingAnnotationPosition ?s = Some (Vector3 0 0 0)"
    unfolding placing_state by simp
  have "trim (js '' Rider '') \<noteq> []"
    unfolding trim_Rider by (simp add: js_def)
  then have nw: "\<not> (\<forall>c \<in> set (js '' Rider ''). isWhiteSpace c)"
    by (simp add: trim_eq_Nil)
  have ws: "\<forall>c \<in> set (js '' ''). isWhiteSpace c"
    by (simp add: js_def isWhiteSpace_def)
  have "title (last (annotations (saveAnnotation ?s (js '' Rider '') (js '' '')))) =
          trim (js '' Rider '') \<and>
        description (last (annotations (saveAnnotation ?s (js '' Rider '') (js '' '')))) =
          js ''No description provided.''"
    using whitespace_title_and_trimmed_fields [where t = "js '' Rider ''" and s = ?s
        and d = "js '' ''" and pos = "Vector3 0 0 0"] staged nw ws
    by presburger
  then show ?thesis
    using whitespace_title_and_trimmed_fields [where t = "js [CHR 0x20, CHR 0x09, CHR 0x0A]"
        and s = ?s and d = "js ''text''"] white_title
    by (simp add: trim_Rider)
qed

section \<open>Out-of-range indices\<close>

lemma focusAnnotation_out_of_range:
  "index < 0 \<or> int (length (annotations s)) \<le> index \<Longrightarrow> focusAnnotation s index = s"
  by (auto simp: focusAnnotation_def at_index_def)

lemma deleteAnnotation_beyond:
  assumes ok: "state_ok s" and beyond: "int (length (annotations s)) \<le> index"
  shows "annotations (deleteAnnotation s index) = annotations s"
    and "tourIndex (deleteAnnotation s index) = tourIndex s"
proof -
  have sp: "splice1 index (annotations s) = annotations s"
    using beyond by (rule splice1_beyond)
  have "ordinals_ok (annotations s)" using ok by (simp add: state_ok_def)
  then show "annotations (deleteAnnotation s index) = annotations s"
    by (simp add: annotations_delete sp renumber_id)
  have "- 1 \<le> tourIndex s" and "tourIndex s < int (length (annotations s))"
    using ok by (simp_all add: state_ok_def)
  then show "tourIndex (deleteAnnotation s index) = tourIndex s"
    by (auto simp: tourIndex_delete sp Let_def)
qed

text \<open>
  Claim C3, as amended. Focusing an index outside \<open>[0, N-1]\<close> leaves the whole state
  unchanged. In a state the page can reach, deleting at an index \<open>\<ge> N\<close> leaves the
  annotation list, its ordinals and the tour cursor unchanged. (Nothing is said of a
  deletion at a negative index.)
\<close>

theorem out_of_range_focus_and_delete:
  "(index < 0 \<or> int (length (annotations s)) \<le> index \<longrightarrow> focusAnnotation s index = s) \<and>
   (int (length (annotations (run (init_state pg) es))) \<le> index \<longrightarrow>
      annotations (deleteAnnotation (run (init_state pg) es) index) =
        annotations (run (init_state pg) es) \<and>
      tourIndex (deleteAnnotation (run (init_state pg) es) index) =
        tourIndex (run (init_state pg) es))"
  using focusAnnotation_out_of_range [of index s]
    deleteAnnotation_beyond [OF state_ok_reachable, of pg es index]
  by blast

theorem out_of_range_focus_and_delete_witness:
  "focusAnnotation (run (init_state page0) demo_events) (- 1) = run (init_state page0) demo_events \<and>
   focusAnnotation (run (init_state page0) demo_events) 2 = run (init_state page0) demo_events \<and>
   length (annotations (run (init_state page0) demo_events)) = 2 \<and>
   annotations (deleteAnnotation (run (init_state page0) demo_events) 2) =
     annotations (run (init_state page0) demo_events) \<and>
   tourIndex (deleteAnnotation (run (init_state page0) demo_events) 2) =
     tourIndex (run (init_state page0) demo_events)"
proof -
  have len: "length (annotations (run (init_state page0) demo_events)) = 2"
    by (simp add: demo_annotations)
  show ?thesis
    using out_of_range_focus_and_delete [of "- 1" "run (init_state page0) demo_events" page0 demo_events]
      out_of_range_focus_and_delete [of 2 "run (init_state page0) demo_events" page0 demo_events]
      len
    by simp
qed

text \<open>
  Against claim C3 as it was written: deleting at index \<open>-1\<close> is not rejected,
  \<open>splice(-1, 1)\<close> removes the last of the two annotations.
\<close>

theorem delete_negative_index_counterexample:
  "length (annotations (run (init_state page0) demo_events)) = 2 \<and>
   map title (annotations (deleteAnnotation (run (init_state page0) demo_events) (- 1))) =
     [js ''Horse'']"
  by (simp add: annotations_delete demo_annotations splice1_def renumber_def enumerate_eq_zip)

section \<open>Interaction modes\<close>

lemma toggleMeasureMode_fields:
  "isMeasuring (toggleMeasureMode s) = (\<not> isMeasuring s)"
  "isAddingAnnotation (toggleMeasureMode s) = isAddingAnnotation s"
  "pendingAnnotationPosition (toggleMeasureMode s) = pendingAnnotationPosition s"
  "previewMarker (toggleMeasureMode s) = previewMarker s"
  "placedMarker (toggleMeasureMode s) = placedMarker s"
  "measurePoints (toggleMeasureMode s) = []"
  "measureMarkers (toggleMeasureMode s) = []"
  "measureLine (toggleMeasureMode s) = None"
  "measurementResult (toggleMeasureMode s) = []"
  by (simp_all add: toggleMeasureMode_def clearMeasurement_def)

lemma toggleAddAnnotationMode_fields:
  "isAddingAnnotation (toggleAddAnnotationMode s) = (\<not> isAddingAnnotation s)"
  "isMeasuring (toggleAddAnnotationMode s) = isMeasuring s"
  "measurePoints (toggleAddAnnotationMode s) = measurePoints s"
  "measureMarkers (toggleAddAnnotationMode s) = measureMarkers s"
  "measureLine (toggleAddAnnotationMode s) = measureLine s"
  "measurementResult (toggleAddAnnotationMode s) = measurementResult s"
  by (simp_all add: toggleAddAnnotationMode_def Let_def)

lemma toggleAddAnnotationMode_exit:
  assumes "isAddingAnnotation s"
  shows "\<not> isAddingAnnotation (toggleAddAnnotationMode s)"
    and "previewMarker (toggleAddAnnotationMode s) = None"
    and "placedMarker (toggleAddAnnotationMode s) = None"
    and "pendingAnnotationPosition (toggleAddAnnotationMode s) = pendingAnnotationPosition s"
  using assms by (simp_all add: toggleAddAnnotationMode_def Let_def)

lemma toggleAddAnnotationMode_enter:
  assumes "\<not> isAddingAnnotation s"
  shows "isAddingAnnotation (toggleAddAnnotationMode s)"
    and "pendingAnnotationPosition (toggleAddAnnotationMode s) = None"
    and "placedMarker (toggleAddAnnotationMode s) = placedMarker s"
    and "saveDisabled (toggleAddAnnotationMode s)"
  using assms by (simp_all add: toggleAddAnnotationMode_def Let_def)

text \<open>
  Claim C2, as amended. A mode toggle changes its own flag only:
  \<open>toggleMeasureMode\<close> negates \<open>isMeasuring\<close>, clears the measurement session and
  leaves \<open>isAddingAnnotation\<close> and the pending placement as they are;
  \<open>toggleAddAnnotationMode\<close> negates \<open>isAddingAnnotation\<close> and leaves \<open>isMeasuring\<close>
  and the measurement session as they are. So at most one flag is set after a toggle
  exactly when the other mode was not active before it.
\<close>

theorem toggles_are_independent:
  "isMeasuring (toggleMeasureMode s) = (\<not> isMeasuring s) \<and>
   isAddingAnnotation (toggleMeasureMode s) = isAddingAnnotation s \<and>
   pendingAnnotationPosition (toggleMeasureMode s) = pendingAnnotationPosition s \<and>
   measurePoints (toggleMeasureMode s) = [] \<and>
   isAddingAnnotation (toggleAddAnnotationMode s) = (\<not> isAddingAnnotation s) \<and>
   isMeasuring (toggleAddAnnotationMode s) = isMeasuring s \<and>
   measurePoints (toggleAddAnnotationMode s) = measurePoints s \<and>
   ((isMeasuring (toggleMeasureMode s) \<and> isAddingAnnotation (toggleMeasureMode s)) =
      (\<not> isMeasuring s \<and> isAddingAnnotation s)) \<and>
   ((isMeasuring (toggleAddAnnotationMode s) \<and> isAddingAnnotation (toggleAddAnnotationMode s)) =
      (isMeasuring s \<and> \<not> isAddingAnnotation s))"
  by (simp add: toggleMeasureMode_fields toggleAddAnnotationMode_fields)

theorem toggles_are_independent_witness:
  "\<not> isMeasuring (init_state page0) \<and> \<not> isAddingAnnotation (init_state page0) \<and>
   isMeasuring (toggleMeasureMode (init_state page0)) \<and>
   \<not> isAddingAnnotation (toggleMeasureMode (init_state page0)) \<and>
   isAddingAnnotation (toggleAddAnnotationMode (init_state page0)) \<and>
   \<not> isMeasuring (toggleAddAnnotationMode (init_state page0))"
  using toggles_are_independent [of "init_state page0"]
  by (simp add: init_state_def)

text \<open>
  Against claim C2 as it was written: when measuring mode is entered while an
  annotation is being placed, placement mode is not exited and both flags are set.
\<close>

theorem both_modes_active_counterexample:
  "isAddingAnnotation (run (init_state page0) [AddAnnotationToggled]) \<and>
   \<not> isMeasuring (run (init_state page0) [AddAnnotationToggled]) \<and>
   isMeasuring (run (init_state page0) [AddAnnotationToggled, MeasureToggled]) \<and>
   isAddingAnnotation (run (init_state page0) [AddAnnotationToggled, MeasureToggled])"
  by (simp add: run_def init_state_def toggleMeasureMode_fields toggleAddAnnotationMode_fields)

section \<open>Leaving placement mode\<close>

lemma endTour_placement:
  "isAddingAnnotation (endTour s) = isAddingAnnotation s"
  "previewMarker (endTour s) = previewMarker s"
  "placedMarker (endTour s) = placedMarker s"
  "pendingAnnotationPosition (endTour s) = pendingAnnotationPosition s"
  by (simp_all add: endTour_def)

lemma saveAnnotation_exit:
  assumes adding: "isAddingAnnotation s" and t: "trim t \<noteq> []"
    and staged: "pendingAnnotationPosition s \<noteq> None"
  shows "\<not> isAddingAnnotation (saveAnnotation s t d)"
    and "previewMarker (saveAnnotation s t d) = None"
    and "placedMarker (saveAnnotation s t d) = None"
    and "pendingAnnotationPosition (saveAnnotation s t d) = pendingAnnotationPosition s"
proof -
  obtain pos where pos: "pendingAnnotationPosition s = Some pos"
    using staged by auto
  show "\<not> isAddingAnnotation (saveAnnotation s t d)"
    and "previewMarker (saveAnnotation s t d) = None"
    and "placedMarker (saveAnnotation s t d) = None"
    and "pendingAnnotationPosition (saveAnnotation s t d) = pendingAnnotationPosition s"
    using t pos adding
    by (simp_all add: saveAnnotation_def Let_def toggleAddAnnotationMode_def
        update3DAnnotationMarkers_def)
qed

text \<open>
  Claim C9, as amended. Every way out of placement mode (cancel, a save with a title
  and a staged position, the escape key) clears the mode flag and removes the preview marker and
  the placed marker; \<open>state.pendingAnnotationPosition\<close> keeps its value. It is reset
  when placement mode is entered, so a placement never starts with a staged position.
\<close>

theorem leaving_placement_mode:
  "(isAddingAnnotation s \<longrightarrow>
      \<not> isAddingAnnotation (cancelAnnotation s) \<and>
      previewMarker (cancelAnnotation s) = None \<and>
      placedMarker (cancelAnnotation s) = None \<and>
      pendingAnnotationPosition (cancelAnnotation s) = pendingAnnotationPosition s) \<and>
   (isAddingAnnotation s \<longrightarrow>
      \<not> isAddingAnnotation (onKeyDown s Escape) \<and>
      previewMarker (onKeyDown s Escape) = None \<and>
      placedMarker (onKeyDown s Escape) = None \<and>
      pendingAnnotationPosition (onKeyDown s Escape) = pendingAnnotationPosition s) \<and>
   (isAddingAnnotation s \<and> trim t \<noteq> [] \<and> pendingAnnotationPosition s \<noteq> None \<longrightarrow>
      \<not> isAddingAnnotation (saveAnnotation s t d) \<and>
      previewMarker (saveAnnotation s t d) = None \<and>
      placedMarker (saveAnnotation s t d) = None \<and>
      pendingAnnotationPosition (saveAnnotation s t d) = pendingAnnotationPosition s) \<and>
   (\<not> isAddingAnnotation s \<longrightarrow>
      isAddingAnnotation (toggleAddAnnotationMode s) \<and>
      pendingAnnotationPosition (toggleAddAnnotationMode s) = None)"
proof (intro conjI impI)
  assume a: "isAddingAnnotation s"
  show "\<not> isAddingAnnotation (cancelAnnotation s)"
    and "previewMarker (cancelAnnotation s) = None"
    and "placedMarker (cancelAnnotation s) = None"
    and "pendingAnnotationPosition (cancelAnnotation s) = pendingAnnotationPosition s"
    using toggleAddAnnotationMode_exit [OF a] by (simp_all add: cancelAnnotation_def)
next
  assume a: "isAddingAnnotation s"
  show "\<not> isAddingAnnotation (onKeyDown s Escape)"
    and "previewMarker (onKeyDown s Escape) = None"
    and "placedMarker (onKeyDown s Escape) = None"
    and "pendingAnnotationPosition (onKeyDown s Escape) = pendingAnnotationPosition s"
    using toggleAddAnnotationMode_exit [OF a] a
    by (simp_all add: onKeyDown_def cancelAnnotation_def Let_def endTour_placement)
next
  assume "isAddingAnnotation s \<and> trim t \<noteq> [] \<and> pendingAnnotationPosition s \<noteq> None"
  then have a: "isAddingAnnotation s" and t: "trim t \<noteq> []"
    and p: "pendingAnnotationPosition s \<noteq> None" by simp_all
  show "\<not> isAddingAnnotation (saveAnnotation s t d)"
    and "previewMarker (saveAnnotation s t d) = None"
    and "placedMarker (saveAnnotation s t d) = None"
    and "pendingAnnotationPosition (saveAnnotation s t d) = pendingAnnotationPosition s"
    using saveAnnotation_exit [OF a t p] by simp_all
next
  assume n: "\<not> isAddingAnnotation s"
  show "isAddingAnnotation (toggleAddAnnotationMode s)"
    and "pendingAnnotationPosition (toggleAddAnnotationMode s) = None"
    using toggleAddAnnotationMode_enter [OF n] by simp_all
qed


theorem leaving_placement_mode_witness:
  "isAddingAnnotation (run (init_state page0) [ModelLoaded, AddAnnotationToggled, pick (Vector3 0 0 0)]) \<and>
   placedMarker (run (init_state page0) [ModelLoaded, AddAnnotationToggled, pick (Vector3 0 0 0)]) \<noteq> None \<and>
   \<not> isAddingAnnotation
       (cancelAnnotation (run (init_state page0) [ModelLoaded, AddAnnotationToggled, pick (Vector3 0 0 0)])) \<and>
   previewMarker
       (cancelAnnotation (run (init_state page0) [ModelLoaded, AddAnnotationToggled, pick (Vector3 0 0 0)])) = None \<and>
   placedMarker
       (cancelAnnotation (run (init_state page0) [ModelLoaded, AddAnnotationToggled, pick (Vector3 0 0 0)])) = None \<and>
   placedMarker
       (onKeyDown (run (init_state page0) [ModelLoaded, AddAnnotationToggled, pick (Vector3 0 0 0)]) Escape) = None \<and>
   placedMarker
       (saveAnnotation (run (init_state page0) [ModelLoaded, AddAnnotationToggled, pick (Vector3 0 0 0)])
          (js ''Horse'') []) = None \<and>
   pendingAnnotationPosition (toggleAddAnnotationMode (init_state page0)) = None"
proof -
  let ?s = "run (init_state page0) [ModelLoaded, AddAnnotationToggled, pick (Vector3 0 0 0)]"
  have a: "isAddingAnnotation ?s" and p: "placedMarker ?s \<noteq> None"
    and staged: "pendingAnnotationPosition ?s \<noteq> None"
    unfolding placing_state by simp_all
  have ne: "trim (js ''Horse'') \<noteq> []"
    unfolding trim_Horse by (simp add: js_def)
  have n: "\<not> isAddingAnnotation (init_state page0)"
    by (simp add: init_state_def)
  show ?thesis
    using leaving_placement_mode [of ?s "js ''Horse''" "[]"]
      leaving_placement_mode [of "init_state page0" "[]" "[]"] a p staged ne n
    by simp
qed

text \<open>
  Against claim C9 as it was written: after a cancel, after the escape key and after a
  save, the staged position is still in the state.
\<close>

theorem pending_position_kept_counterexample:
  "pendingAnnotationPosition
     (run (init_state page0) [ModelLoaded, AddAnnotationToggled, pick (Vector3 0 0 0), CancelClicked]) =
     Some (Vector3 0 0 0) \<and>
   \<not> isAddingAnnotation
     (run (init_state page0) [ModelLoaded, AddAnnotationToggled, pick (Vector3 0 0 0), CancelClicked]) \<and>
   pendingAnnotationPosition
     (run (init_state page0) [ModelLoaded, AddAnnotationToggled, pick (Vector3 0 0 0), KeyDown Escape]) =
     Some (Vector3 0 0 0) \<and>
   pendingAnnotationPosition
     (run (init_state page0)
        [ModelLoaded, AddAnnotationToggled, pick (Vector3 0 0 0), SaveClicked (js ''Horse'') []]) =
     Some (Vector3 0 0 0)"
  by (simp add: eval_defs cancelAnnotation_def onKeyDown_def endTour_def)

section \<open>Click routing\<close>

lemma focusAnnotation_frame:
  "measurePoints (focusAnnotation s i) = measurePoints s"
  "measureMarkers (focusAnnotation s i) = measureMarkers s"
  "measureLine (focusAnnotation s i) = measureLine s"
  "measurementResult (focusAnnotation s i) = measurementResult s"
  "pendingAnnotationPosition (focusAnnotation s i) = pendingAnnotationPosition s"
  "annotations (focusAnnotation s i) = annotations s"
  by (simp_all add: focusAnnotation_def split: option.splits)

lemma setAnnotationPosition_frame:
  "measurePoints (setAnnotationPosition s p) = measurePoints s"
  "measureMarkers (setAnnotationPosition s p) = measureMarkers s"
  "measureLine (setAnnotationPosition s p) = measureLine s"
  "measurementResult (setAnnotationPosition s p) = measurementResult s"
  "pendingAnnotationPosition (setAnnotationPosition s p) = Some p"
  "saveDisabled (setAnnotationPosition s p) = False"
  "placedMarker (setAnnotationPosition s p) = Some (createPlacedMarker p)"
  by (simp_all add: setAnnotationPosition_def)


lemma onCanvasClick_marker:
  assumes "modelLoaded s" "\<not> isMeasuring s" "\<not> isAddingAnnotation s"
    and "markerHit c = Some k" "k < length (annotationMarkers s)"
    and "\<not> m_isPreview (annotationMarkers s ! k)"
  shows "onCanvasClick s c = focusAnnotation s (m_index (annotationMarkers s ! k))"
  using assms by (auto simp: onCanvasClick_def hitAnnotation_def Let_def)

lemma onCanvasClick_surface:
  assumes "modelLoaded s" "isMeasuring s \<or> isAddingAnnotation s \<or> hitAnnotation s c = None"
    and "modelHit c = Some p"
  shows "onCanvasClick s c =
     (if isMeasuring s \<and> length (measurePoints s) < 2 then addMeasurePoint s p
      else if isAddingAnnotation s then setAnnotationPosition s p
      else s)"
  using assms by (auto simp: onCanvasClick_def)

lemma onCanvasClick_measurePoints:
  "measurePoints (onCanvasClick s c) =
     (if modelLoaded s \<and> isMeasuring s \<and> length (measurePoints s) < 2
      then (case modelHit c of None \<Rightarrow> measurePoints s | Some p \<Rightarrow> measurePoints s @ [p])
      else measurePoints s)"
  by (auto simp: onCanvasClick_def focusAnnotation_frame setAnnotationPosition_frame
      addMeasurePoint_frame split: option.splits)

lemma onCanvasClick_pending:
  "pendingAnnotationPosition (onCanvasClick s c) =
     (if modelLoaded s \<and> isAddingAnnotation s \<and> \<not> (isMeasuring s \<and> length (measurePoints s) < 2)
      then (case modelHit c of None \<Rightarrow> pendingAnnotationPosition s | Some p \<Rightarrow> Some p)
      else pendingAnnotationPosition s)"
  by (auto simp: onCanvasClick_def focusAnnotation_frame setAnnotationPosition_frame
      addMeasurePoint_frame split: option.splits)

lemma nth_markers_of:
  "k < length as \<Longrightarrow>
     markers_of as ! k = createAnnotationMarker (position (as ! k)) (int k) False"
  by (simp add: markers_of_def nth_enumerate_eq)

lemma length_markers_of [simp]: "length (markers_of as) = length as"
  by (simp add: markers_of_def)

lemma onCanvasClick_marker_reachable:
  assumes ok: "state_ok s" and "modelLoaded s" "\<not> isMeasuring s" "\<not> isAddingAnnotation s"
    and hit: "markerHit c = Some k" and k: "k < length (annotations s)"
  shows "onCanvasClick s c = focusAnnotation s (int k)"
    and "tourIndex (onCanvasClick s c) = int k"
    and "infoTitle (onCanvasClick s c) = title (annotations s ! k)"
    and "\<not> infoPanelHidden (onCanvasClick s c)"
proof -
  have m: "annotationMarkers s = markers_of (annotations s)"
    using ok by (simp add: state_ok_def)
  have "onCanvasClick s c = focusAnnotation s (m_index (annotationMarkers s ! k))"
    using assms(2-4) hit k
    by (intro onCanvasClick_marker) (simp_all add: m nth_markers_of createAnnotationMarker_def)
  then show f: "onCanvasClick s c = focusAnnotation s (int k)"
    using k by (simp add: m nth_markers_of createAnnotationMarker_def)
  show "tourIndex (onCanvasClick s c) = int k"
    and "infoTitle (onCanvasClick s c) = title (annotations s ! k)"
    and "\<not> infoPanelHidden (onCanvasClick s c)"
    using k by (simp_all add: f focusAnnotation_def at_index_def)
qed

text \<open>
  Claim C8. A click before the model is loaded does nothing. With neither mode active,
  a click that hits an annotation marker focuses that marker's annotation and nothing
  else happens (no measurement point, no staged position); in a reachable state the
  marker in place \<open>k\<close> belongs to annotation \<open>k\<close>. Otherwise the click is picked against
  the model: a surface hit becomes a measurement point in measuring mode with fewer than
  two points, else the staged position in placement mode (whatever was staged before),
  else nothing. The measurement points change only in the first way and the staged
  position only in the second.
\<close>

theorem click_routing:
  "(\<not> modelLoaded s \<longrightarrow> onCanvasClick s c = s) \<and>
   (modelLoaded s \<and> \<not> isMeasuring s \<and> \<not> isAddingAnnotation s \<and>
    markerHit c = Some k \<and> k < length (annotationMarkers s) \<and>
    \<not> m_isPreview (annotationMarkers s ! k) \<longrightarrow>
      onCanvasClick s c = focusAnnotation s (m_index (annotationMarkers s ! k)) \<and>
      measurePoints (onCanvasClick s c) = measurePoints s \<and>
      pendingAnnotationPosition (onCanvasClick s c) = pendingAnnotationPosition s) \<and>
   (modelLoaded (run (init_state pg) es) \<and> \<not> isMeasuring (run (init_state pg) es) \<and>
    \<not> isAddingAnnotation (run (init_state pg) es) \<and>
    markerHit c = Some k \<and> k < length (annotations (run (init_state pg) es)) \<longrightarrow>
      onCanvasClick (run (init_state pg) es) c = focusAnnotation (run (init_state pg) es) (int k) \<and>
      tourIndex (onCanvasClick (run (init_state pg) es) c) = int k) \<and>
   (modelLoaded s \<and> (isMeasuring s \<or> isAddingAnnotation s \<or> hitAnnotation s c = None) \<and>
    modelHit c = Some p \<longrightarrow>
      onCanvasClick s c =
        (if isMeasuring s \<and> length (measurePoints s) < 2 then addMeasurePoint s p
         else if isAddingAnnotation s then setAnnotationPosition s p
         else s)) \<and>
   measurePoints (addMeasurePoint s p) = measurePoints s @ [p] \<and>
   pendingAnnotationPosition (addMeasurePoint s p) = pendingAnnotationPosition s \<and>
   pendingAnnotationPosition (setAnnotationPosition s p) = Some p \<and>
   measurePoints (setAnnotationPosition s p) = measurePoints s \<and>
   (measurePoints (onCanvasClick s c) \<noteq> measurePoints s \<longrightarrow>
      modelLoaded s \<and> isMeasuring s \<and> length (measurePoints s) < 2 \<and> modelHit c \<noteq> None) \<and>
   (pendingAnnotationPosition (onCanvasClick s c) \<noteq> pendingAnnotationPosition s \<longrightarrow>
      modelLoaded s \<and> isAddingAnnotation s \<and>
      \<not> (isMeasuring s \<and> length (measurePoints s) < 2) \<and> modelHit c \<noteq> None)"
proof (intro conjI impI)
  assume "\<not> modelLoaded s"
  then show "onCanvasClick s c = s" by (simp add: onCanvasClick_def)
next
  assume h: "modelLoaded s \<and> \<not> isMeasuring s \<and> \<not> isAddingAnnotation s \<and>
    markerHit c = Some k \<and> k < length (annotationMarkers s) \<and>
    \<not> m_isPreview (annotationMarkers s ! k)"
  then show f: "onCanvasClick s c = focusAnnotation s (m_index (annotationMarkers s ! k))"
    by (intro onCanvasClick_marker) simp_all
  show "measurePoints (onCanvasClick s c) = measurePoints s"
    and "pendingAnnotationPosition (onCanvasClick s c) = pendingAnnotationPosition s"
    by (simp_all add: f focusAnnotation_frame)
next
  assume h: "modelLoaded (run (init_state pg) es) \<and> \<not> isMeasuring (run (init_state pg) es) \<and>
    \<not> isAddingAnnotation (run (init_state pg) es) \<and>
    markerHit c = Some k \<and> k < length (annotations (run (init_state pg) es))"
  show "onCanvasClick (run (init_state pg) es) c = focusAnnotation (run (init_state pg) es) (int k)"
    and "tourIndex (onCanvasClick (run (init_state pg) es) c) = int k"
    using onCanvasClick_marker_reachable [OF state_ok_reachable, of pg es c k] h by simp_all
next
  assume "modelLoaded s \<and> (isMeasuring s \<or> isAddingAnnotation s \<or> hitAnnotation s c = None) \<and>
    modelHit c = Some p"
  then show "onCanvasClick s c =
        (if isMeasuring s \<and> length (measurePoints s) < 2 then addMeasurePoint s p
         else if isAddingAnnotation s then setAnnotationPosition s p
         else s)"
    by (intro onCanvasClick_surface) simp_all
next
  show "measurePoints (addMeasurePoint s p) = measurePoints s @ [p]"
    and "pendingAnnotationPosition (addMeasurePoint s p) = pendingAnnotationPosition s"
    by (simp_all add: addMeasurePoint_frame)
  show "pendingAnnotationPosition (setAnnotationPosition s p) = Some p"
    and "measurePoints (setAnnotationPosition s p) = measurePoints s"
    by (simp_all add: setAnnotationPosition_frame)
next
  assume ch: "measurePoints (onCanvasClick s c) \<noteq> measurePoints s"
  then show "modelLoaded s" and "isMeasuring s" and "length (measurePoints s) < 2"
    and "modelHit c \<noteq> None"
    by (auto simp: onCanvasClick_measurePoints split: if_splits option.splits)
next
  assume ch: "pendingAnnotationPosition (onCanvasClick s c) \<noteq> pendingAnnotationPosition s"
  then show "modelLoaded s" and "isAddingAnnotation s"
    and "\<not> (isMeasuring s \<and> length (measurePoints s) < 2)" and "modelHit c \<noteq> None"
    by (auto simp: onCanvasClick_pending split: if_splits option.splits)
qed


lemma demo_flags:
  "modelLoaded (run (init_state page0) demo_events)"
  "\<not> isMeasuring (run (init_state page0) demo_events)"
  "\<not> isAddingAnnotation (run (init_state page0) demo_events)"
  by (simp_all add: eval_defs)

lemma measuring_state:
  "run (init_state page0) [ModelLoaded, MeasureToggled] =
     (init_state page0)\<lparr> modelLoaded := True, isMeasuring := True \<rparr>"
  by (simp add: run_def init_state_def page0_def toggleMeasureMode_def clearMeasurement_def)

theorem click_routing_witness:
  "onCanvasClick (init_state page0) \<lparr> markerHit = Some 0, modelHit = Some (Vector3 1 2 3) \<rparr> =
     init_state page0 \<and>
   tourIndex (onCanvasClick (run (init_state page0) demo_events)
     \<lparr> markerHit = Some 1, modelHit = Some (Vector3 1 2 3) \<rparr>) = 1 \<and>
   measurePoints (onCanvasClick (run (init_state page0) demo_events)
     \<lparr> markerHit = Some 1, modelHit = Some (Vector3 1 2 3) \<rparr>) = [] \<and>
   measurePoints (onCanvasClick (run (init_state page0) [ModelLoaded, MeasureToggled])
     \<lparr> markerHit = None, modelHit = Some (Vector3 1 2 3) \<rparr>) = [Vector3 1 2 3] \<and>
   pendingAnnotationPosition
     (onCanvasClick (run (init_state page0) [ModelLoaded, AddAnnotationToggled, pick (Vector3 0 0 0)])
        \<lparr> markerHit = None, modelHit = Some (Vector3 1 2 3) \<rparr>) = Some (Vector3 1 2 3)"
proof -
  let ?c = "\<lparr> markerHit = Some 1, modelHit = Some (Vector3 1 2 3) \<rparr>"
  let ?d = "\<lparr> markerHit = None, modelHit = Some (Vector3 1 2 3) \<rparr>"
  let ?demo = "run (init_state page0) demo_events"
  let ?m = "run (init_state page0) [ModelLoaded, MeasureToggled]"
  let ?p = "run (init_state page0) [ModelLoaded, AddAnnotationToggled, pick (Vector3 0 0 0)]"
  have len: "length (annotations ?demo) = 2" by (simp add: demo_annotations)
  have "\<not> modelLoaded (init_state page0)" by (simp add: init_state_def)
  then have 1: "onCanvasClick (init_state page0) \<lparr> markerHit = Some 0, modelHit = Some (Vector3 1 2 3) \<rparr> =
     init_state page0"
    using click_routing [where s = "init_state page0"
        and c = "\<lparr> markerHit = Some 0, modelHit = Some (Vector3 1 2 3) \<rparr>"]
    by blast
  have "modelLoaded ?demo \<and> \<not> isMeasuring ?demo \<and> \<not> isAddingAnnotation ?demo \<and>
      markerHit ?c = Some 1 \<and> 1 < length (annotations ?demo)"
    using demo_flags len by simp
  then have f: "onCanvasClick ?demo ?c = focusAnnotation ?demo (int 1)"
    and g: "tourIndex (onCanvasClick ?demo ?c) = int 1"
    using click_routing [where c = ?c and k = 1 and pg = page0 and es = demo_events]
    by blast+
  have 2: "tourIndex (onCanvasClick ?demo ?c) = 1"
    using g by simp
  have 3: "measurePoints (onCanvasClick ?demo ?c) = measurePoints ?demo"
    using f by (simp add: focusAnnotation_frame)
  have 4: "measurePoints ?demo = []" by (simp add: eval_defs)
  have "modelLoaded ?m \<and> (isMeasuring ?m \<or> isAddingAnnotation ?m \<or> hitAnnotation ?m ?d = None) \<and>
      modelHit ?d = Some (Vector3 1 2 3)"
    and "isMeasuring ?m \<and> length (measurePoints ?m) < 2"
    unfolding measuring_state by (simp_all add: init_state_def)
  then have "onCanvasClick ?m ?d = addMeasurePoint ?m (Vector3 1 2 3)"
    using click_routing [where s = ?m and c = ?d and p = "Vector3 1 2 3"]
    by presburger
  then have 5: "measurePoints (onCanvasClick ?m ?d) = [Vector3 1 2 3]"
    unfolding measuring_state by (simp add: addMeasurePoint_frame init_state_def)
  have "modelLoaded ?p \<and> (isMeasuring ?p \<or> isAddingAnnotation ?p \<or> hitAnnotation ?p ?d = None) \<and>
      modelHit ?d = Some (Vector3 1 2 3)"
    and "\<not> isMeasuring ?p" and "isAddingAnnotation ?p"
    unfolding placing_state by simp_all
  then have "onCanvasClick ?p ?d = setAnnotationPosition ?p (Vector3 1 2 3)"
    using click_routing [where s = ?p and c = ?d and p = "Vector3 1 2 3"]
    by presburger
  then have 6: "pendingAnnotationPosition (onCanvasClick ?p ?d) = Some (Vector3 1 2 3)"
    by (simp add: setAnnotationPosition_frame)
  from 1 2 3 4 5 6 show ?thesis by simp
qed

section \<open>Measurement\<close>






section \<open>Ticks of the camera animation\<close>

lemma js_add_NaN_right [simp]: "js_add a NaN = NaN"
  by (cases a) simp_all

lemma js_mul_NaN_right [simp]: "js_mul a NaN = NaN"
  by (cases a) simp_all








lemma progress_zero_by_zero:
  "duration a = Finite 0 \<Longrightarrow> progress a (startTime a) = NaN"
  by (simp add: progress_def Math_min_def Let_def)







end
